theory Spec2Isabelle
  imports Complex_Main "HOL-Library.Sublist"
begin

section \<open>JavaScript errors and strings\<close>

text \<open>
  A thrown JavaScript \<^verbatim>\<open>Error\<close> is kept as the two properties the code reads:
  \<^verbatim>\<open>error.name || error.constructor.name\<close> and \<^verbatim>\<open>error.message || ''\<close>.
\<close>

record js_error =
  name :: string
  message :: string

text \<open>\<^verbatim>\<open>String.prototype.includes\<close>: the argument occurs as a contiguous part.\<close>

fun str_includes :: "string \<Rightarrow> string \<Rightarrow> bool" where
  "str_includes [] sub = (sub = [])"
| "str_includes (c # cs) sub = (prefix sub (c # cs) \<or> str_includes cs sub)"

section \<open>JavaScript numbers\<close>

text \<open>
  A JavaScript number is a finite double, which is a rational, or one of
  \<^verbatim>\<open>Infinity\<close>, \<^verbatim>\<open>-Infinity\<close> and \<^verbatim>\<open>NaN\<close>; the sign of a zero is not kept.
\<close>

datatype number = Num rat | PosInfinity | NegInfinity | NaN

text \<open>\<^verbatim>\<open>a <= b\<close> on numbers: false as soon as one side is \<^verbatim>\<open>NaN\<close>.\<close>

fun number_le :: "number \<Rightarrow> number \<Rightarrow> bool" where
  "number_le NaN b = False"
| "number_le a NaN = False"
| "number_le NegInfinity b = True"
| "number_le a PosInfinity = True"
| "number_le (Num x) (Num y) = (x \<le> y)"
| "number_le PosInfinity b = False"
| "number_le a NegInfinity = False"

text \<open>\<^verbatim>\<open>Math.min(a, b)\<close>: \<^verbatim>\<open>NaN\<close> as soon as one argument is \<^verbatim>\<open>NaN\<close>.\<close>

definition math_min :: "number \<Rightarrow> number \<Rightarrow> number" where
  "math_min a b = (if a = NaN \<or> b = NaN then NaN else if number_le a b then a else b)"

text \<open>
  What the JavaScript runtime brings: \<^verbatim>\<open>Math.random()\<close> (\<open>math_random n\<close> is the draw
  made after attempt \<open>n\<close>), the product \<^verbatim>\<open>a * b\<close> and the sum \<^verbatim>\<open>a + b\<close> of two
  numbers, which are the exact results rounded to a double, and \<^verbatim>\<open>Math.pow(a, n)\<close> for
  an attempt counter \<open>n\<close>, an approximation the language leaves to the implementation.
  They are a parameter of the model, which so covers every rounding.
\<close>

record runtime =
  math_random :: "nat \<Rightarrow> number"
  js_mul :: "number \<Rightarrow> number \<Rightarrow> number"
  js_add :: "number \<Rightarrow> number \<Rightarrow> number"
  math_pow :: "number \<Rightarrow> nat \<Rightarrow> number"

section \<open>The retry helper (\<^verbatim>\<open>RetryHelper\<close>)\<close>

text \<open>
  An awaited operation is a state transformer: it returns the value it resolves to
  (\<open>Inr\<close>) or the error it throws (\<open>Inl\<close>), and the state it leaves behind.
\<close>

type_synonym ('s, 'a) operation = "'s \<Rightarrow> (js_error + 'a) \<times> 's"

text \<open>
  What a call of \<^verbatim>\<open>exponentialBackoff\<close> did: what it returned or threw
  (\<open>Inl None\<close> is \<^verbatim>\<open>throw lastError\<close> with \<^verbatim>\<open>lastError\<close> still undefined),
  the state it left, the outcome of every invocation of \<^verbatim>\<open>fn\<close> in order, and the
  arguments of every \<^verbatim>\<open>sleep\<close> in order.
\<close>

record ('s, 'a) run =
  outcome :: "js_error option + 'a"
  final :: 's
  attempts :: "(js_error + 'a) list"
  sleeps :: "number list"

text \<open>Line 29: \<^verbatim>\<open>Math.min(baseDelay * Math.pow(factor, attempt), maxDelay)\<close>.\<close>

definition backoff_delay :: "runtime \<Rightarrow> number \<Rightarrow> number \<Rightarrow> number \<Rightarrow> nat \<Rightarrow> number" where
  "backoff_delay rt baseDelay maxDelay factor attempt =
     math_min (js_mul rt baseDelay (math_pow rt factor attempt)) maxDelay"

text \<open>
  Lines 32-34: \<^verbatim>\<open>if (jitter) delay = delay * (0.5 + Math.random() * 0.5)\<close>, with
  \<open>r\<close> the draw.
\<close>

definition jitter_factor :: "runtime \<Rightarrow> number \<Rightarrow> number" where
  "jitter_factor rt r = js_add rt (Num (1 / 2)) (js_mul rt r (Num (1 / 2)))"

definition jittered :: "runtime \<Rightarrow> bool \<Rightarrow> number \<Rightarrow> number \<Rightarrow> number" where
  "jittered rt jitter r delay = (if jitter then js_mul rt delay (jitter_factor rt r) else delay)"

text \<open>
  The \<^verbatim>\<open>for (let attempt = 0; attempt <= maxRetries; attempt++)\<close> loop, entered at
  \<open>attempt\<close> with the current \<^verbatim>\<open>lastError\<close>.
\<close>

function exponentialBackoff_from ::
  "nat \<Rightarrow> ('s, 'a) operation \<Rightarrow> int \<Rightarrow> number \<Rightarrow> number \<Rightarrow> number \<Rightarrow> bool \<Rightarrow> runtime
     \<Rightarrow> js_error option \<Rightarrow> 's \<Rightarrow> ('s, 'a) run" where
  "exponentialBackoff_from attempt fn maxRetries baseDelay maxDelay factor jitter rt lastError s =
     (if int attempt \<le> maxRetries then
        (case fn s of
           (Inr v, s') \<Rightarrow> \<lparr>outcome = Inr v, final = s', attempts = [Inr v], sleeps = []\<rparr>
         | (Inl err, s') \<Rightarrow>
             if int attempt = maxRetries then
               \<lparr>outcome = Inl (Some err), final = s', attempts = [Inl err], sleeps = []\<rparr>
             else
               (let delay = jittered rt jitter (math_random rt attempt)
                              (backoff_delay rt baseDelay maxDelay factor attempt);
                    r = exponentialBackoff_from (Suc attempt) fn maxRetries baseDelay maxDelay
                          factor jitter rt (Some err) s'
                in r\<lparr>attempts := Inl err # attempts r, sleeps := delay # sleeps r\<rparr>))
      else \<lparr>outcome = Inl lastError, final = s, attempts = [], sleeps = []\<rparr>)"
  by pat_completeness auto
termination
  by (relation "measure (\<lambda>(attempt, fn, maxRetries, _). nat (maxRetries + 1 - int attempt))") auto

declare exponentialBackoff_from.simps [simp del]

definition exponentialBackoff ::
  "('s, 'a) operation \<Rightarrow> int \<Rightarrow> number \<Rightarrow> number \<Rightarrow> number \<Rightarrow> bool \<Rightarrow> runtime \<Rightarrow> 's \<Rightarrow> ('s, 'a) run" where
  "exponentialBackoff fn maxRetries baseDelay maxDelay factor jitter rt s =
     exponentialBackoff_from 0 fn maxRetries baseDelay maxDelay factor jitter rt None s"

definition retryableErrors :: "string list" where
  "retryableErrors =
     [''ThrottlingException'', ''ProvisionedThroughputExceededException'',
      ''ServiceUnavailableException'', ''InternalServerErrorException'', ''RequestTimeout'',
      ''NetworkingError'', ''ECONNRESET'', ''ENOTFOUND'', ''ECONNREFUSED'', ''ETIMEDOUT'']"

definition isRetryableError :: "js_error \<Rightarrow> bool" where
  "isRetryableError err =
     list_ex (\<lambda>retryableError. str_includes (name err) retryableError
                               \<or> str_includes (message err) retryableError) retryableErrors"

text \<open>The \<^verbatim>\<open>options\<close> object of \<^verbatim>\<open>withRetry\<close>, with its defaults.\<close>

record retry_options =
  opt_maxRetries :: int
  opt_baseDelay :: number
  opt_maxDelay :: number
  opt_factor :: number
  opt_jitter :: bool
  retryCondition :: "js_error \<Rightarrow> bool"

definition default_options :: retry_options where
  "default_options =
     \<lparr>opt_maxRetries = 3, opt_baseDelay = Num 1000, opt_maxDelay = Num 30000, opt_factor = Num 2,
      opt_jitter = True, retryCondition = isRetryableError\<rparr>"

text \<open>
  Lines 87-96: \<^verbatim>\<open>wrappedOperation\<close> catches the error, asks \<^verbatim>\<open>retryCondition\<close>,
  and throws the same error on both branches.
\<close>

definition wrappedOperation :: "(js_error \<Rightarrow> bool) \<Rightarrow> ('s, 'a) operation \<Rightarrow> ('s, 'a) operation" where
  "wrappedOperation cond operation s =
     (case operation s of
        (Inr v, s') \<Rightarrow> (Inr v, s')
      | (Inl err, s') \<Rightarrow> if \<not> cond err then (Inl err, s') else (Inl err, s'))"

definition withRetry ::
  "('s, 'a) operation \<Rightarrow> retry_options \<Rightarrow> runtime \<Rightarrow> 's \<Rightarrow> ('s, 'a) run" where
  "withRetry operation options rt s =
     exponentialBackoff (wrappedOperation (retryCondition options) operation)
       (opt_maxRetries options) (opt_baseDelay options) (opt_maxDelay options)
       (opt_factor options) (opt_jitter options) rt s"

definition retryWithBackoff :: "('s, 'a) operation \<Rightarrow> runtime \<Rightarrow> 's \<Rightarrow> ('s, 'a) run" where
  "retryWithBackoff operation rt s =
     withRetry operation
       (default_options\<lparr>opt_maxRetries := 3, opt_baseDelay := Num 1000,
                        retryCondition := (\<lambda>err. isRetryableError err)\<rparr>) rt s"


section \<open>Outbox entries and the store\<close>

text \<open>
  An outbox item as DynamoDB holds it and as the processors read it. Only \<^verbatim>\<open>id\<close>
  (here \<open>entry_id\<close>), \<^verbatim>\<open>status\<close> and \<^verbatim>\<open>updatedAt\<close> are on every item; any other
  attribute may be missing (\<open>None\<close> is JavaScript's \<^verbatim>\<open>undefined\<close>). Timestamps are
  milliseconds since the epoch; the rendered content keeps the three parts the senders
  read.
\<close>

record content =
  subject :: "string option"
  html :: "string option"
  text_part :: string

record send_result =
  messageId :: string
  send_status :: string
  send_provider :: string

record outbox_entry =
  entry_id :: string
  notificationId :: "string option"
  type :: "string option"
  recipient :: "string option"
  content :: "content option"
  priority :: "string option"
  scheduledAt :: "int option"
  status :: string
  retryCount :: "int option"
  maxRetries :: "int option"
  ttl :: "int option"
  createdAt :: "int option"
  updatedAt :: int
  error :: "string option"
  result :: "send_result option"

text \<open>
  The world outside the code: the outbox table, the e-mail and SMS providers (the answer
  to the \<open>n\<close>-th send is an error or a \<^verbatim>\<open>MessageId\<close>), the log of the sends made
  so far, and the log of the metrics published so far.
\<close>

datatype provider_call =
  SendEmailCommand "string option" content
| PublishCommand "string option" string

record world =
  table :: "string \<rightharpoonup> outbox_entry"
  provider :: "nat \<Rightarrow> js_error + string"
  sent :: "provider_call list"
  metrics :: "(string \<times> (string \<times> string option) list) list"

text \<open>
  \<^verbatim>\<open>MetricsService.incrementCounter\<close> publishes one data point and swallows every
  error of its own, so it never throws.
\<close>

definition incrementCounter :: "string \<Rightarrow> (string \<times> string option) list \<Rightarrow> world \<Rightarrow> world" where
  "incrementCounter metricName dimensions w = w\<lparr>metrics := metrics w @ [(metricName, dimensions)]\<rparr>"

text \<open>
  The store's \<^verbatim>\<open>UpdateItem\<close> for the expression
  \<^verbatim>\<open>SET #status = :status, updatedAt = :updatedAt\<close>, extended by
  \<^verbatim>\<open>, #error = :error, retryCount = retryCount + :increment\<close> when \<open>err\<close> is given and by
  \<^verbatim>\<open>, result = :result\<close> when \<open>res\<close> is given. \<^verbatim>\<open>status\<close> and \<^verbatim>\<open>error\<close> are
  reserved words of the store's expression language and are named through the
  placeholders \<^verbatim>\<open>#status\<close> and \<^verbatim>\<open>#error\<close>; \<^verbatim>\<open>result\<close> is a reserved word too and
  is named as it is, so the store rejects every expression that has the result clause
  with a \<^verbatim>\<open>ValidationException\<close>, before it looks at the item. No condition expression
  is sent, so DynamoDB creates the item when the key is absent; an expression that reads
  an attribute the item does not have is rejected with a \<^verbatim>\<open>ValidationException\<close>. A
  rejected update writes nothing. \<open>set_expression\<close> is the effect of the expression
  on the item, \<open>update_item\<close> the effect of the command on the table.
\<close>

definition empty_item :: "string \<Rightarrow> outbox_entry" where
  "empty_item key =
     \<lparr>entry_id = key, notificationId = None, type = None, recipient = None, content = None,
      priority = None, scheduledAt = None, status = [], retryCount = None, maxRetries = None,
      ttl = None, createdAt = None, updatedAt = 0, error = None, result = None\<rparr>"

definition missing_attribute :: js_error where
  "missing_attribute =
     \<lparr>name = ''ValidationException'',
      message = ''The provided expression refers to an attribute that does not exist in the item''\<rparr>"

definition reserved_keyword :: js_error where
  "reserved_keyword =
     \<lparr>name = ''ValidationException'',
      message = ''Invalid UpdateExpression: Attribute name is a reserved keyword; reserved keyword: result''\<rparr>"

definition set_expression ::
  "string \<Rightarrow> int \<Rightarrow> string option \<Rightarrow> send_result option \<Rightarrow> outbox_entry
     \<Rightarrow> js_error + outbox_entry" where
  "set_expression st now err res item =
     (case res of
        Some r \<Rightarrow> Inl reserved_keyword
      | None \<Rightarrow>
          (let item1 = item\<lparr>status := st, updatedAt := now\<rparr>
           in case err of
                None \<Rightarrow> Inr item1
              | Some msg \<Rightarrow>
                  (case retryCount item of
                     None \<Rightarrow> Inl missing_attribute
                   | Some n \<Rightarrow> Inr (item1\<lparr>error := Some msg, retryCount := Some (n + 1)\<rparr>))))"

definition update_item ::
  "string \<Rightarrow> string \<Rightarrow> int \<Rightarrow> string option \<Rightarrow> send_result option
     \<Rightarrow> (string \<rightharpoonup> outbox_entry) \<Rightarrow> js_error + (string \<rightharpoonup> outbox_entry)" where
  "update_item key st now err res tbl =
     (case set_expression st now err res
             (case tbl key of Some e \<Rightarrow> e | None \<Rightarrow> empty_item key) of
        Inl rejected \<Rightarrow> Inl rejected
      | Inr item \<Rightarrow> Inr (tbl(key \<mapsto> item)))"

text \<open>\<^verbatim>\<open>if (error)\<close>: \<^verbatim>\<open>null\<close> and the empty string are falsy.\<close>

definition truthy_string :: "string option \<Rightarrow> string option" where
  "truthy_string x = (case x of Some m \<Rightarrow> if m = [] then None else Some m | None \<Rightarrow> None)"

text \<open>\<^verbatim>\<open>NotificationService.updateOutboxEntryStatus(outboxId, status, error, result)\<close>.\<close>

definition updateOutboxEntryStatus ::
  "string \<Rightarrow> string \<Rightarrow> string option \<Rightarrow> send_result option \<Rightarrow> int \<Rightarrow> world
     \<Rightarrow> (js_error + unit) \<times> world" where
  "updateOutboxEntryStatus outboxId st err res now w =
     (case update_item outboxId st now (truthy_string err) res (table w) of
        Inl updateError \<Rightarrow> (Inl updateError, w)
      | Inr tbl \<Rightarrow> (Inr (), w\<lparr>table := tbl\<rparr>))"

text \<open>\<^verbatim>\<open>OutboxService.updateOutboxEntryStatus(outboxId, status, error)\<close>.\<close>

definition outbox_updateOutboxEntryStatus ::
  "string \<Rightarrow> string \<Rightarrow> string option \<Rightarrow> int \<Rightarrow> world \<Rightarrow> (js_error + unit) \<times> world" where
  "outbox_updateOutboxEntryStatus outboxId st err now w =
     (case update_item outboxId st now (truthy_string err) None (table w) of
        Inl updateError \<Rightarrow> (Inl updateError, w)
      | Inr tbl \<Rightarrow> (Inr (), w\<lparr>table := tbl\<rparr>))"

definition getOutboxEntry :: "string \<Rightarrow> world \<Rightarrow> js_error + outbox_entry" where
  "getOutboxEntry outboxId w =
     (case table w outboxId of
        None \<Rightarrow> Inl \<lparr>name = ''Error'', message = ''Outbox entry not found''\<rparr>
      | Some item \<Rightarrow> Inr item)"

text \<open>
  \<^verbatim>\<open>a >= b\<close> on two properties that hold a number or are \<^verbatim>\<open>undefined\<close>: a comparison
  with \<^verbatim>\<open>undefined\<close> is false.
\<close>

definition js_ge :: "int option \<Rightarrow> int option \<Rightarrow> bool" where
  "js_ge a b = (case (a, b) of (Some x, Some y) \<Rightarrow> y \<le> x | _ \<Rightarrow> False)"

text \<open>\<^verbatim>\<open>OutboxService.requeueFailedNotification(outboxId)\<close>; it returns \<^verbatim>\<open>entry.retryCount\<close>.\<close>

definition requeueFailedNotification ::
  "string \<Rightarrow> int \<Rightarrow> world \<Rightarrow> (js_error + int option) \<times> world" where
  "requeueFailedNotification outboxId now w =
     (case getOutboxEntry outboxId w of
        Inl err \<Rightarrow> (Inl err, w)
      | Inr entry \<Rightarrow>
          if status entry \<noteq> ''failed'' then
            (Inl \<lparr>name = ''Error'', message = ''Only failed notifications can be requeued''\<rparr>, w)
          else if js_ge (retryCount entry) (maxRetries entry) then
            (Inl \<lparr>name = ''Error'', message = ''Maximum retry attempts exceeded''\<rparr>, w)
          else
            (case outbox_updateOutboxEntryStatus outboxId ''pending'' None now w of
               (Inl err, w') \<Rightarrow> (Inl err, w')
             | (Inr _, w') \<Rightarrow> (Inr (retryCount entry), w')))"

text \<open>
  \<^verbatim>\<open>storeInOutbox(notification, renderedContent)\<close>: \<open>newId\<close> is the \<^verbatim>\<open>uuidv4()\<close> drawn
  for the entry; the \<^verbatim>\<open>PutCommand\<close> carries no condition.
\<close>

record notification =
  n_id :: string
  n_type :: "string option"
  n_recipient :: "string option"
  n_priority :: "string option"
  n_scheduledAt :: "int option"

definition storeInOutbox ::
  "string \<Rightarrow> notification \<Rightarrow> content \<Rightarrow> int \<Rightarrow> world \<Rightarrow> outbox_entry \<times> world" where
  "storeInOutbox newId n renderedContent now w =
     (let outboxEntry =
            \<lparr>entry_id = newId, notificationId = Some (n_id n), type = n_type n,
             recipient = n_recipient n, content = Some renderedContent, priority = n_priority n,
             scheduledAt = n_scheduledAt n, status = ''pending'', retryCount = Some 0,
             maxRetries = Some 3, ttl = Some (now div 1000 + 7 * 24 * 60 * 60),
             createdAt = Some now, updatedAt = now, error = None, result = None\<rparr>
      in (outboxEntry, w\<lparr>table := (table w)(newId \<mapsto> outboxEntry)\<rparr>))"


section \<open>The delivery executor (\<^verbatim>\<open>NotificationService\<close>)\<close>

text \<open>Reading \<^verbatim>\<open>content.subject\<close> or \<^verbatim>\<open>content.text\<close> of a missing content throws.\<close>

definition undefined_property :: "string \<Rightarrow> js_error" where
  "undefined_property prop =
     \<lparr>name = ''TypeError'',
      message = ''Cannot read properties of undefined (reading '' @ [CHR 0x27] @ prop @ [CHR 0x27] @ '')''\<rparr>"

text \<open>One send to a provider: the call is logged and the provider's next answer taken.\<close>

definition provider_send :: "provider_call \<Rightarrow> world \<Rightarrow> (js_error + string) \<times> world" where
  "provider_send call w = (provider w (length (sent w)), w\<lparr>sent := sent w @ [call]\<rparr>)"

definition sendEmail :: "string option \<Rightarrow> content option \<Rightarrow> world \<Rightarrow> (js_error + send_result) \<times> world" where
  "sendEmail rcpt cont w =
     (case cont of
        None \<Rightarrow> (Inl (undefined_property ''subject''), w)
      | Some c \<Rightarrow>
          (case provider_send (SendEmailCommand rcpt c) w of
             (Inl err, w') \<Rightarrow> (Inl err, w')
           | (Inr mid, w') \<Rightarrow>
               (Inr \<lparr>messageId = mid, send_status = ''sent'', send_provider = ''SES''\<rparr>, w')))"

definition sendSMS :: "string option \<Rightarrow> content option \<Rightarrow> world \<Rightarrow> (js_error + send_result) \<times> world" where
  "sendSMS rcpt cont w =
     (case cont of
        None \<Rightarrow> (Inl (undefined_property ''text''), w)
      | Some c \<Rightarrow>
          (case provider_send (PublishCommand rcpt (text_part c)) w of
             (Inl err, w') \<Rightarrow> (Inl err, w')
           | (Inr mid, w') \<Rightarrow>
               (Inr \<lparr>messageId = mid, send_status = ''sent'', send_provider = ''SNS''\<rparr>, w')))"

text \<open>
  \<^verbatim>\<open>outboxEntry.scheduledAt && new Date(outboxEntry.scheduledAt) > new Date()\<close>, with
  the clock reading \<open>now\<close>.
\<close>

definition scheduled_for_future :: "outbox_entry \<Rightarrow> int \<Rightarrow> bool" where
  "scheduled_for_future outboxEntry now =
     (case scheduledAt outboxEntry of None \<Rightarrow> False | Some t \<Rightarrow> now < t)"

datatype process_result = Scheduled | Sent string

definition or_undefined :: "string option \<Rightarrow> string" where
  "or_undefined x = (case x of Some v \<Rightarrow> v | None \<Rightarrow> ''undefined'')"

text \<open>
  Lines 176-183 of \<^verbatim>\<open>processOutboxEntry\<close>: the send chosen by
  \<^verbatim>\<open>outboxEntry.type\<close>, or the error thrown for any other type.
\<close>

definition send_by_type :: "outbox_entry \<Rightarrow> world \<Rightarrow> (js_error + send_result) \<times> world" where
  "send_by_type outboxEntry w =
     (if type outboxEntry = Some ''email'' then
        sendEmail (recipient outboxEntry) (content outboxEntry) w
      else if type outboxEntry = Some ''sms'' then
        sendSMS (recipient outboxEntry) (content outboxEntry) w
      else
        (Inl \<lparr>name = ''Error'',
              message = ''Unsupported notification type: '' @ or_undefined (type outboxEntry)\<rparr>,
         w))"

text \<open>The \<^verbatim>\<open>try\<close> block of \<^verbatim>\<open>processOutboxEntry\<close>.\<close>

definition processOutboxEntry_try ::
  "outbox_entry \<Rightarrow> int \<Rightarrow> world \<Rightarrow> (js_error + process_result) \<times> world" where
  "processOutboxEntry_try outboxEntry now w =
     (if scheduled_for_future outboxEntry now then (Inr Scheduled, w)
      else
        (case send_by_type outboxEntry w of
           (Inl err, w1) \<Rightarrow> (Inl err, w1)
         | (Inr res, w1) \<Rightarrow>
             (case updateOutboxEntryStatus (entry_id outboxEntry) ''sent'' None (Some res) now w1 of
                (Inl err, w2) \<Rightarrow> (Inl err, w2)
              | (Inr _, w2) \<Rightarrow>
                  (Inr (Sent (messageId res)),
                   incrementCounter ''notifications.sent''
                     [(''type'', type outboxEntry), (''priority'', priority outboxEntry)] w2))))"

text \<open>\<^verbatim>\<open>processOutboxEntry\<close>: the \<^verbatim>\<open>try\<close> block, then the \<^verbatim>\<open>catch\<close> block on an error.\<close>

definition processOutboxEntry ::
  "outbox_entry \<Rightarrow> int \<Rightarrow> world \<Rightarrow> (js_error + process_result) \<times> world" where
  "processOutboxEntry outboxEntry now w =
     (case processOutboxEntry_try outboxEntry now w of
        (Inr r, w1) \<Rightarrow> (Inr r, w1)
      | (Inl err, w1) \<Rightarrow>
          (case updateOutboxEntryStatus (entry_id outboxEntry) ''failed'' (Some (message err)) None now w1 of
             (Inl updateError, w2) \<Rightarrow> (Inl updateError, w2)
           | (Inr _, w2) \<Rightarrow>
               (Inl err,
                incrementCounter ''notifications.failed''
                  [(''type'', type outboxEntry), (''priority'', priority outboxEntry),
                   (''errorType'', Some (name err))] w2)))"

section \<open>The change-feed dispatcher (\<^verbatim>\<open>StreamProcessor\<close>)\<close>

text \<open>
  A stream record; \<^verbatim>\<open>NewImage\<close> is kept as the entry that
  \<^verbatim>\<open>convertDynamoDBRecord\<close> makes of it.
\<close>

record dynamodb_part =
  NewImage :: "outbox_entry option"

record stream_record =
  eventName :: string
  dynamodb :: "dynamodb_part option"

text \<open>The \<^verbatim>\<open>async () => { await processOutboxEntry(outboxEntry) }\<close> handed to the retry helper.\<close>

definition process_operation :: "outbox_entry \<Rightarrow> int \<Rightarrow> (world, unit) operation" where
  "process_operation outboxEntry now w =
     (case processOutboxEntry outboxEntry now w of
        (Inl err, w') \<Rightarrow> (Inl err, w')
      | (Inr _, w') \<Rightarrow> (Inr (), w'))"

definition processRecord ::
  "stream_record \<Rightarrow> int \<Rightarrow> runtime \<Rightarrow> world \<Rightarrow> (js_error option + unit) \<times> world" where
  "processRecord rec now rt w =
     (if eventName rec \<noteq> ''INSERT'' then (Inr (), w)
      else
        (case dynamodb rec of
           None \<Rightarrow> (Inr (), w)
         | Some d \<Rightarrow>
             (case NewImage d of
                None \<Rightarrow> (Inr (), w)
              | Some outboxEntry \<Rightarrow>
                  if status outboxEntry \<noteq> ''pending'' then (Inr (), w)
                  else if scheduled_for_future outboxEntry now then (Inr (), w)
                  else
                    (let r = retryWithBackoff (process_operation outboxEntry now) rt w
                     in (outcome r, final r)))))"

section \<open>The escalation processor (\<^verbatim>\<open>DLQProcessor\<close>)\<close>

text \<open>
  The parsed body of a queue message, by the branch of \<^verbatim>\<open>processMessage\<close> that
  accepts it: a failed stream record with its image, a reference by \<^verbatim>\<open>outboxId\<close>, an
  entry given directly, or anything else (also a body that does not parse).
\<close>

datatype dlq_message =
  StreamFailure outbox_entry
| OutboxReference string
| DirectEntry outbox_entry
| Unrecognised

datatype dlq_status = Success | PermanentlyFailed | Failed bool

text \<open>\<^verbatim>\<open>outboxEntry.maxRetries || 3\<close>: a missing or zero \<^verbatim>\<open>maxRetries\<close> reads as 3.\<close>

definition maxRetries_or_3 :: "outbox_entry \<Rightarrow> int" where
  "maxRetries_or_3 outboxEntry =
     (case maxRetries outboxEntry of None \<Rightarrow> 3 | Some m \<Rightarrow> if m = 0 then 3 else m)"

definition markAsPermanentlyFailed :: "outbox_entry \<Rightarrow> int \<Rightarrow> world \<Rightarrow> (js_error + unit) \<times> world" where
  "markAsPermanentlyFailed outboxEntry now w =
     (case outbox_updateOutboxEntryStatus (entry_id outboxEntry) ''permanently_failed''
             (Some ''Exceeded maximum retry attempts'') now w of
        (Inl err, w1) \<Rightarrow> (Inl err, w1)
      | (Inr _, w1) \<Rightarrow>
          (Inr (),
           incrementCounter ''notifications.permanently_failed''
             [(''type'', type outboxEntry),
              (''priority'', Some (case truthy_string (priority outboxEntry) of
                                     Some p \<Rightarrow> p | None \<Rightarrow> ''normal''))] w1))"

definition retryNotification ::
  "outbox_entry \<Rightarrow> int \<Rightarrow> runtime \<Rightarrow> world \<Rightarrow> (js_error + unit) \<times> world" where
  "retryNotification outboxEntry now rt w =
     (let r = exponentialBackoff (process_operation outboxEntry now) 2 (Num 2000) (Num 10000)
                (Num 2) True rt w
      in case outcome r of
           Inr _ \<Rightarrow> (Inr (), final r)
         | Inl None \<Rightarrow> (Inl (undefined_property ''message''), final r)
         | Inl (Some err) \<Rightarrow>
             (case outbox_updateOutboxEntryStatus (entry_id outboxEntry) ''failed''
                     (Some (''DLQ retry failed: '' @ message err)) now (final r) of
                (Inl updateError, w2) \<Rightarrow> (Inl updateError, w2)
              | (Inr _, w2) \<Rightarrow> (Inl err, w2)))"

text \<open>The \<^verbatim>\<open>try\<close> block of \<^verbatim>\<open>processMessage\<close>.\<close>

definition processMessage_try ::
  "dlq_message \<Rightarrow> int \<Rightarrow> runtime \<Rightarrow> world \<Rightarrow> (js_error + dlq_status) \<times> world" where
  "processMessage_try msg now rt w =
     (case (case msg of
              StreamFailure newImage \<Rightarrow> Inr newImage
            | OutboxReference outboxId \<Rightarrow> getOutboxEntry outboxId w
            | DirectEntry entry \<Rightarrow> Inr entry
            | Unrecognised \<Rightarrow>
                Inl \<lparr>name = ''Error'', message = ''Unable to extract outbox entry from DLQ message''\<rparr>) of
        Inl err \<Rightarrow> (Inl err, w)
      | Inr outboxEntry \<Rightarrow>
          if js_ge (retryCount outboxEntry) (Some (maxRetries_or_3 outboxEntry)) then
            (case markAsPermanentlyFailed outboxEntry now w of
               (Inl err, w1) \<Rightarrow> (Inl err, w1)
             | (Inr _, w1) \<Rightarrow> (Inr PermanentlyFailed, w1))
          else
            (case retryNotification outboxEntry now rt w of
               (Inl err, w1) \<Rightarrow> (Inl err, w1)
             | (Inr _, w1) \<Rightarrow> (Inr Success, w1)))"

definition processMessage ::
  "dlq_message \<Rightarrow> int \<Rightarrow> runtime \<Rightarrow> world \<Rightarrow> dlq_status \<times> world" where
  "processMessage msg now rt w =
     (case processMessage_try msg now rt w of
        (Inr st, w1) \<Rightarrow> (st, w1)
      | (Inl err, w1) \<Rightarrow> if isRetryableError err then (Failed True, w1) else (Failed False, w1))"

section \<open>Sweeps over the outbox\<close>

text \<open>
  A \<^verbatim>\<open>ScanCommand\<close> with a filter expression returns the items that pass the filter,
  in an order of the store's own and one page at a time; \<open>keys\<close> are the keys the scan
  visits, in its order.
\<close>

definition scan :: "string list \<Rightarrow> (outbox_entry \<Rightarrow> bool) \<Rightarrow> world \<Rightarrow> outbox_entry list" where
  "scan keys keep w = filter keep (List.map_filter (table w) keys)"

text \<open>
  The filter of \<^verbatim>\<open>OutboxService.processScheduledNotifications\<close>:
  \<^verbatim>\<open>#status = :pendingStatus AND (attribute_not_exists(scheduledAt) OR scheduledAt <= :now)\<close>.
\<close>

definition due_pending :: "int \<Rightarrow> outbox_entry \<Rightarrow> bool" where
  "due_pending now e =
     (status e = ''pending'' \<and> (case scheduledAt e of None \<Rightarrow> True | Some t \<Rightarrow> t \<le> now))"

text \<open>
  Its loop: every entry found is handed to \<^verbatim>\<open>processOutboxEntry\<close>, and the result or
  the caught error is pushed to \<^verbatim>\<open>processResults\<close>.
\<close>

fun process_entries ::
  "outbox_entry list \<Rightarrow> int \<Rightarrow> world \<Rightarrow> (string \<times> (js_error + process_result)) list \<times> world" where
  "process_entries [] now w = ([], w)"
| "process_entries (entry # rest) now w =
     (case processOutboxEntry entry now w of
        (r, w1) \<Rightarrow>
          (case process_entries rest now w1 of
             (rs, w2) \<Rightarrow> ((entry_id entry, r) # rs, w2)))"

definition processScheduledNotifications ::
  "string list \<Rightarrow> int \<Rightarrow> world
     \<Rightarrow> (nat \<times> (string \<times> (js_error + process_result)) list) \<times> world" where
  "processScheduledNotifications keys now w =
     (let pendingEntries = scan keys (due_pending now) w
      in case process_entries pendingEntries now w of
           (processResults, w') \<Rightarrow> ((length pendingEntries, processResults), w'))"

text \<open>
  \<^verbatim>\<open>NotificationService.retryFailedNotifications\<close> builds its scan with
  \<^verbatim>\<open>new ScanCommand(params)\<close>, but \<^verbatim>\<open>notification-service.js\<close> imports only
  \<^verbatim>\<open>PutCommand\<close>, \<^verbatim>\<open>GetCommand\<close>, \<^verbatim>\<open>UpdateCommand\<close> and \<^verbatim>\<open>DeleteCommand\<close>: the
  name is not bound, the expression throws a \<^verbatim>\<open>ReferenceError\<close> inside the
  \<^verbatim>\<open>try\<close>, and the \<^verbatim>\<open>catch\<close> rethrows it before any entry is read or written.
\<close>

definition retryFailedNotifications :: "int \<Rightarrow> world \<Rightarrow> (js_error + unit) \<times> world" where
  "retryFailedNotifications maxRetriesArg w =
     (Inl \<lparr>name = ''ReferenceError'', message = ''ScanCommand is not defined''\<rparr>, w)"

section \<open>Reachable outbox states\<close>

text \<open>
  The states the outbox takes, from an empty table, under enqueue, dispatch of a stream
  record, escalation of a queue message, manual requeue, the sweep of due pending
  entries and the retry of failed ones as the API calls it, each at any clock reading,
  with any provider behaviour and on any runtime.
\<close>

inductive reachable :: "world \<Rightarrow> bool" where
  initial: "table w = Map.empty \<Longrightarrow> reachable w"
| enqueue: "reachable w \<Longrightarrow> reachable (snd (storeInOutbox newId n renderedContent now w))"
| dispatch: "reachable w \<Longrightarrow> reachable (snd (processRecord rec now rt w))"
| escalate: "reachable w \<Longrightarrow> reachable (snd (processMessage msg now rt w))"
| requeue: "reachable w \<Longrightarrow> reachable (snd (requeueFailedNotification outboxId now w))"
| sweep: "reachable w \<Longrightarrow> reachable (snd (processScheduledNotifications keys now w))"
| retry: "reachable w \<Longrightarrow> reachable (snd (retryFailedNotifications 3 w))"


section \<open>Masking of recipients (\<^verbatim>\<open>maskSensitiveData\<close>)\<close>

text \<open>\<^verbatim>\<open>String.prototype.split\<close> on a one-character separator.\<close>

fun js_split :: "char \<Rightarrow> string \<Rightarrow> string list" where
  "js_split sep [] = [[]]"
| "js_split sep (c # cs) =
     (if c = sep then [] # js_split sep cs
      else (c # hd (js_split sep cs)) # tl (js_split sep cs))"

text \<open>\<^verbatim>\<open>str.substring(start, end)\<close> for \<open>0 \<le> start \<le> end\<close>; a negative start is 0.\<close>

definition substring :: "string \<Rightarrow> nat \<Rightarrow> nat \<Rightarrow> string" where
  "substring str start end = take (end - start) (drop start str)"

text \<open>
  \<^verbatim>\<open>const [localPart, domain] = data.split('@')\<close> takes the first two pieces; a
  missing second piece would print as \<^verbatim>\<open>undefined\<close>.
\<close>

definition maskSensitiveData :: "string \<Rightarrow> string" where
  "maskSensitiveData data =
     (if data = [] then data
      else if str_includes data ''@'' then
        (let parts = js_split CHR ''@'' data;
             localPart = hd parts;
             domain = (case tl parts of d # _ \<Rightarrow> d | [] \<Rightarrow> ''undefined'')
         in substring localPart 0 2 @ ''***@'' @ domain)
      else if prefix ''+'' data then
        substring data 0 3 @ ''***'' @ substring data (length data - 2) (length data)
      else data)"

text \<open>
  The recipient pattern of \<^verbatim>\<open>NotificationModel.createSchema\<close> for SMS,
  \<^verbatim>\<open>/^\+[1-9]\d{1,14}$/\<close>.
\<close>

definition is_digit :: "char \<Rightarrow> bool" where
  "is_digit c = (c \<in> set ''0123456789'')"

definition e164 :: "string \<Rightarrow> bool" where
  "e164 str =
     (case str of
        p # d # ds \<Rightarrow> p = CHR ''+'' \<and> d \<in> set ''123456789'' \<and> list_all is_digit ds
                        \<and> 1 \<le> length ds \<and> length ds \<le> 14
      | _ \<Rightarrow> False)"

section \<open>Decoding of attribute values (\<^verbatim>\<open>convertDynamoDBValue\<close>)\<close>

text \<open>
  A DynamoDB attribute value is a wrapper object with one type tag. In the JSON of a
  stream image or a queue message the payload of \<^verbatim>\<open>S\<close>, \<^verbatim>\<open>N\<close> and \<^verbatim>\<open>B\<close> is a
  string, of \<^verbatim>\<open>BOOL\<close> and \<^verbatim>\<open>NULL\<close> a boolean, of \<^verbatim>\<open>L\<close> an array of wrappers, of
  \<^verbatim>\<open>M\<close> an object of wrappers, of \<^verbatim>\<open>SS\<close>, \<^verbatim>\<open>NS\<close>, \<^verbatim>\<open>BS\<close> an array of strings.
\<close>

datatype attr =
  S string | N string | B string | BOOL bool | NULL bool
| L "attr list" | M "(string \<times> attr) list"
| SS "string list" | NS "string list" | BS "string list"

text \<open>
  The JavaScript values the decoder returns; \<open>Number s\<close> is the number \<^verbatim>\<open>Number(s)\<close>,
  \<open>Wrapper a\<close> the wrapper object \<open>a\<close> itself, returned by the fallback.
\<close>

datatype jsval =
  Str string | Number string | Bool bool | Null
| Array "jsval list" | Object "(string \<times> jsval) list" | Wrapper attr

text \<open>
  Each \<^verbatim>\<open>if (value.T) return ...\<close> tests the payload for truthiness: the empty string
  and \<^verbatim>\<open>false\<close> are falsy, every array and object is truthy. A wrapper has one tag,
  so the tests for the other tags read \<^verbatim>\<open>undefined\<close> and fall through.
\<close>

fun convertDynamoDBValue :: "attr \<Rightarrow> jsval" where
  "convertDynamoDBValue (S s) = (if s \<noteq> [] then Str s else Wrapper (S s))"
| "convertDynamoDBValue (N s) = (if s \<noteq> [] then Number s else Wrapper (N s))"
| "convertDynamoDBValue (B s) = (if s \<noteq> [] then Str s else Wrapper (B s))"
| "convertDynamoDBValue (BOOL b) = (if b then Bool b else Wrapper (BOOL b))"
| "convertDynamoDBValue (NULL b) = (if b then Null else Wrapper (NULL b))"
| "convertDynamoDBValue (L items) = Array (map convertDynamoDBValue items)"
| "convertDynamoDBValue (M kvs) = Object (map (\<lambda>(k, v). (k, convertDynamoDBValue v)) kvs)"
| "convertDynamoDBValue (SS ss) = Array (map Str ss)"
| "convertDynamoDBValue (NS ns) = Array (map Number ns)"
| "convertDynamoDBValue (BS bs) = Array (map Str bs)"

definition convertDynamoDBRecord :: "(string \<times> attr) list \<Rightarrow> (string \<times> jsval) list" where
  "convertDynamoDBRecord dynamoDBImage =
     map (\<lambda>(key, v). (key, convertDynamoDBValue v)) dynamoDBImage"

text \<open>The payload of a wrapper is falsy: an empty string or \<^verbatim>\<open>false\<close>.\<close>

fun falsy_payload :: "attr \<Rightarrow> bool" where
  "falsy_payload (S s) = (s = [])"
| "falsy_payload (N s) = (s = [])"
| "falsy_payload (B s) = (s = [])"
| "falsy_payload (BOOL b) = (\<not> b)"
| "falsy_payload (NULL b) = (\<not> b)"
| "falsy_payload _ = False"

text \<open>What a wrapper stands for, by its tag.\<close>

fun decoded :: "attr \<Rightarrow> jsval" where
  "decoded (S s) = Str s"
| "decoded (N s) = Number s"
| "decoded (B s) = Str s"
| "decoded (BOOL b) = Bool b"
| "decoded (NULL b) = Null"
| "decoded (L items) = Array (map convertDynamoDBValue items)"
| "decoded (M kvs) = Object (convertDynamoDBRecord kvs)"
| "decoded (SS ss) = Array (map Str ss)"
| "decoded (NS ns) = Array (map Number ns)"
| "decoded (BS bs) = Array (map Str bs)"


section \<open>Monotone rounding\<close>


section \<open>Example inputs\<close>

text \<open>
  A runtime whose arithmetic is exact on finite numbers and follows IEEE 754 on the
  infinities and \<^verbatim>\<open>NaN\<close>, with the given draws of \<^verbatim>\<open>Math.random()\<close>. Every number
  of the examples below is a double, so a real runtime computes the same values.
\<close>

fun number_sign :: "number \<Rightarrow> rat" where
  "number_sign (Num x) = sgn x"
| "number_sign PosInfinity = 1"
| "number_sign NegInfinity = - 1"
| "number_sign NaN = 0"

definition exact_mul :: "number \<Rightarrow> number \<Rightarrow> number" where
  "exact_mul a b =
     (if a = NaN \<or> b = NaN then NaN
      else case (a, b) of
             (Num x, Num y) \<Rightarrow> Num (x * y)
           | _ \<Rightarrow> if number_sign a * number_sign b = 0 then NaN
                  else if 0 < number_sign a * number_sign b then PosInfinity
                  else NegInfinity)"

definition exact_add :: "number \<Rightarrow> number \<Rightarrow> number" where
  "exact_add a b =
     (if a = NaN \<or> b = NaN then NaN
      else case (a, b) of
             (Num x, Num y) \<Rightarrow> Num (x + y)
           | (Num x, c) \<Rightarrow> c
           | (c, Num y) \<Rightarrow> c
           | (c, c') \<Rightarrow> if c = c' then c else NaN)"

definition exact_pow :: "number \<Rightarrow> nat \<Rightarrow> number" where
  "exact_pow a n =
     (if n = 0 then Num 1
      else case a of
             Num x \<Rightarrow> Num (x ^ n)
           | PosInfinity \<Rightarrow> PosInfinity
           | NegInfinity \<Rightarrow> if even n then PosInfinity else NegInfinity
           | NaN \<Rightarrow> NaN)"

definition exact_arithmetic :: "(nat \<Rightarrow> rat) \<Rightarrow> runtime" where
  "exact_arithmetic draws =
     \<lparr>math_random = (\<lambda>n. Num (draws n)), js_mul = exact_mul, js_add = exact_add,
      math_pow = exact_pow\<rparr>"

text \<open>
  An operation that fails with the same error every time and counts its invocations in
  the state.
\<close>

definition always_failing :: "js_error \<Rightarrow> (nat, unit) operation" where
  "always_failing err n = (Inl err, Suc n)"

definition boom :: js_error where
  "boom = \<lparr>name = ''Error'', message = ''boom''\<rparr>"

definition invalid_recipient :: js_error where
  "invalid_recipient = \<lparr>name = ''ValidationError'', message = ''Invalid recipient''\<rparr>"

text \<open>
  A provider that throttles every send, a rendered e-mail, and the outbox after the
  enqueue of one notification at clock 1000 and the dispatch of its insert event at
  clock 2000.
\<close>

definition throttled :: js_error where
  "throttled = \<lparr>name = ''ThrottlingException'', message = ''Rate exceeded''\<rparr>"

definition failing_world :: world where
  "failing_world = \<lparr>table = Map.empty, provider = (\<lambda>_. Inl throttled), sent = [], metrics = []\<rparr>"

definition greeting :: "content" where
  "greeting = \<lparr>subject = Some ''S'', html = None, text_part = ''T''\<rparr>"

definition request :: "notification" where
  "request = \<lparr>n_id = ''n1'', n_type = Some ''email'', n_recipient = Some ''a@b.com'',
              n_priority = Some ''normal'', n_scheduledAt = None\<rparr>"

definition queued_entry :: outbox_entry where
  "queued_entry = fst (storeInOutbox ''o1'' request greeting 1000 failing_world)"

definition queued_world :: world where
  "queued_world = snd (storeInOutbox ''o1'' request greeting 1000 failing_world)"

definition insert_record :: stream_record where
  "insert_record = \<lparr>eventName = ''INSERT'', dynamodb = Some \<lparr>NewImage = Some queued_entry\<rparr>\<rparr>"



text \<open>
  A provider receipt; an entry that failed once; an entry scheduled for clock 9000; an
  entry that has used its three retries; an entry whose \<^verbatim>\<open>maxRetries\<close> is 0.
\<close>

definition receipt :: send_result where
  "receipt = \<lparr>messageId = ''m1'', send_status = ''sent'', send_provider = ''SES''\<rparr>"

definition once_failed :: outbox_entry where
  "once_failed = queued_entry\<lparr>status := ''failed'', retryCount := Some 1,
                               error := Some ''Rate exceeded''\<rparr>"

definition once_failed_world :: world where
  "once_failed_world = failing_world\<lparr>table := [''o1'' \<mapsto> once_failed]\<rparr>"

definition later_entry :: outbox_entry where
  "later_entry = queued_entry\<lparr>scheduledAt := Some 9000\<rparr>"

definition later_world :: world where
  "later_world = failing_world\<lparr>table := [''o1'' \<mapsto> later_entry]\<rparr>"

definition later_record :: stream_record where
  "later_record = \<lparr>eventName = ''INSERT'', dynamodb = Some \<lparr>NewImage = Some later_entry\<rparr>\<rparr>"

definition exhausted_entry :: outbox_entry where
  "exhausted_entry = queued_entry\<lparr>status := ''failed'', retryCount := Some 3,
                                   error := Some ''Rate exceeded''\<rparr>"

definition exhausted_world :: world where
  "exhausted_world = failing_world\<lparr>table := [''o1'' \<mapsto> exhausted_entry]\<rparr>"

definition zero_budget_entry :: outbox_entry where
  "zero_budget_entry = queued_entry\<lparr>status := ''failed'', retryCount := Some 1,
                                     maxRetries := Some 0, error := Some ''Rate exceeded''\<rparr>"

definition zero_budget_world :: world where
  "zero_budget_world = failing_world\<lparr>table := [''o1'' \<mapsto> zero_budget_entry]\<rparr>"

text \<open>
  A provider whose every error has an empty message, and the outbox after the escalation,
  at clock 2000, of a queue message that carries an entry the table does not hold.
\<close>

definition silent :: js_error where
  "silent = \<lparr>name = ''Error'', message = []\<rparr>"

definition silent_world :: world where
  "silent_world = \<lparr>table = Map.empty, provider = (\<lambda>_. Inl silent), sent = [], metrics = []\<rparr>"

definition escalated_world :: world where
  "escalated_world =
     snd (processMessage (DirectEntry queued_entry) 2000 (exact_arithmetic (\<lambda>_. 0)) silent_world)"

definition bare_failed :: outbox_entry where
  "bare_failed = (empty_item ''o1'')\<lparr>status := ''failed'', updatedAt := 2000\<rparr>"

section \<open>The retry budget as an invariant\<close>


section \<open>Properties of the retry helper\<close>

text \<open>The loop entered at \<open>a\<close> invokes the operation at most \<open>maxRetries + 1 - a\<close> times.\<close>

lemma backoff_attempts_le:
  "length (attempts (exponentialBackoff_from a fn m b d f j rnd le s)) \<le> nat (m + 1 - int a)"
proof (induction a fn m b d f j rnd le s rule: exponentialBackoff_from.induct)
  case (1 a fn m b d f j rnd le s)
  show ?case
  proof (cases "int a \<le> m")
    case False
    then show ?thesis by (simp add: exponentialBackoff_from.simps)
  next
    case True
    obtain x s' where fs: "fn s = (x, s')" by (cases "fn s")
    show ?thesis
    proof (cases x)
      case (Inr v)
      with True fs show ?thesis by (simp add: exponentialBackoff_from.simps)
    next
      case (Inl err)
      show ?thesis
      proof (cases "int a = m")
        case True
        with fs Inl show ?thesis by (simp add: exponentialBackoff_from.simps)
      next
        case False
        with True fs Inl "1.IH"[OF True fs[symmetric] Inl False refl]
        show ?thesis
          by (subst exponentialBackoff_from.simps) (simp add: Let_def)
      qed
    qed
  qed
qed

lemma backoff_all_fail:
  "int a \<le> m \<Longrightarrow> \<forall>x\<in>set (attempts (exponentialBackoff_from a fn m b d f j rnd le s)). isl x \<Longrightarrow>
   length (attempts (exponentialBackoff_from a fn m b d f j rnd le s)) = nat (m + 1 - int a) \<and>
   outcome (exponentialBackoff_from a fn m b d f j rnd le s)
     = Inl (Some (projl (last (attempts (exponentialBackoff_from a fn m b d f j rnd le s)))))"
proof (induction a fn m b d f j rnd le s rule: exponentialBackoff_from.induct)
  case (1 a fn m b d f j rnd le s)
  obtain x s' where fs: "fn s = (x, s')" by (cases "fn s")
  show ?case
  proof (cases x)
    case (Inr v)
    with "1.prems" fs show ?thesis by (simp add: exponentialBackoff_from.simps)
  next
    case (Inl err)
    show ?thesis
    proof (cases "int a = m")
      case True
      with fs Inl show ?thesis by (simp add: exponentialBackoff_from.simps)
    next
      case False
      let ?r = "exponentialBackoff_from (Suc a) fn m b d f j rnd (Some err) s'"
      have unf: "exponentialBackoff_from a fn m b d f j rnd le s
                 = ?r\<lparr>attempts := Inl err # attempts ?r,
                       sleeps := jittered rnd j (math_random rnd a) (backoff_delay rnd b d f a) # sleeps ?r\<rparr>"
        using "1.prems"(1) fs Inl False
        by (subst exponentialBackoff_from.simps) (simp add: Let_def)
      have le': "int (Suc a) \<le> m" using "1.prems"(1) False by simp
      have all: "\<forall>x\<in>set (attempts ?r). isl x" using "1.prems"(2) unf by simp
      have ne: "attempts ?r \<noteq> []"
        using "1.IH"[OF "1.prems"(1) fs[symmetric] Inl False refl le' all] le' by auto
      show ?thesis
        using "1.IH"[OF "1.prems"(1) fs[symmetric] Inl False refl le' all] unf ne le'
        by auto
    qed
  qed
qed



lemma number_le_total: "a \<noteq> NaN \<Longrightarrow> b \<noteq> NaN \<Longrightarrow> number_le a b \<or> number_le b a"
  by (cases a; cases b) auto









text \<open>
  C6, as the code has it. The second argument of \<^verbatim>\<open>exponentialBackoff\<close> counts the
  retries after the first attempt (the loop runs while \<^verbatim>\<open>attempt <= maxRetries\<close>), so
  the operation is invoked at most \<open>maxRetries + 1\<close> times; when every attempt fails it
  is invoked exactly that often, and the call fails with the error of the last attempt.
\<close>

theorem exponentialBackoff_attempts:
  "length (attempts (exponentialBackoff fn mr b d f j rnd s)) \<le> nat (mr + 1) \<and>
   (0 \<le> mr \<longrightarrow> (\<forall>x\<in>set (attempts (exponentialBackoff fn mr b d f j rnd s)). isl x) \<longrightarrow>
      length (attempts (exponentialBackoff fn mr b d f j rnd s)) = nat (mr + 1) \<and>
      outcome (exponentialBackoff fn mr b d f j rnd s)
        = Inl (Some (projl (last (attempts (exponentialBackoff fn mr b d f j rnd s))))))"
  using backoff_attempts_le[of 0 fn mr b d f j rnd None s]
        backoff_all_fail[of 0 mr fn b d f j rnd None s]
  by (simp add: exponentialBackoff_def)

theorem exponentialBackoff_attempts_witness:
  "(0::int) \<le> 3 \<and>
   attempts (exponentialBackoff (always_failing boom) 3 (Num 1000) (Num 30000) (Num 2) True
           (exact_arithmetic (\<lambda>_. 0)) 0)
     = [Inl boom, Inl boom, Inl boom, Inl boom] \<and>
   length (attempts (exponentialBackoff (always_failing boom) 3 (Num 1000) (Num 30000) (Num 2) True
           (exact_arithmetic (\<lambda>_. 0)) 0)) = 4 \<and>
   outcome (exponentialBackoff (always_failing boom) 3 (Num 1000) (Num 30000) (Num 2) True
           (exact_arithmetic (\<lambda>_. 0)) 0) = Inl (Some boom)"
proof -
  have tr: "attempts (exponentialBackoff (always_failing boom) 3 (Num 1000) (Num 30000) (Num 2) True
           (exact_arithmetic (\<lambda>_. 0)) 0)
     = [Inl boom, Inl boom, Inl boom, Inl boom]"
    by (simp add: exponentialBackoff_def exponentialBackoff_from.simps always_failing_def)
  from exponentialBackoff_attempts[of "always_failing boom" 3 "Num 1000" "Num 30000" "Num 2" True
      "exact_arithmetic (\<lambda>_. 0)" 0]
  show ?thesis by (simp add: tr)
qed

text \<open>
  C6, as stated, fails: with 3 as the second argument the operation is invoked 4 times,
  not at most 3 times.
\<close>

theorem exponentialBackoff_attempts_counterexample:
  "\<not> length (attempts (exponentialBackoff (always_failing boom) 3 (Num 1000) (Num 30000) (Num 2) True
           (exact_arithmetic (\<lambda>_. 0)) 0)) \<le> 3"
  by (simp add: exponentialBackoff_def exponentialBackoff_from.simps always_failing_def)






text \<open>
  C2 at a failing input. The error is not retryable by \<^verbatim>\<open>isRetryableError\<close>, yet
  \<^verbatim>\<open>withRetry\<close> with the default options invokes the operation four times before it
  fails: \<^verbatim>\<open>wrappedOperation\<close> rethrows into the backoff loop whatever
  \<^verbatim>\<open>retryCondition\<close> answers.
\<close>

theorem withRetry_retries_non_retryable:
  "\<not> isRetryableError invalid_recipient \<and>
   attempts (withRetry (always_failing invalid_recipient) default_options (exact_arithmetic (\<lambda>_. 0)) 0)
     = [Inl invalid_recipient, Inl invalid_recipient, Inl invalid_recipient, Inl invalid_recipient] \<and>
   final (withRetry (always_failing invalid_recipient) default_options (exact_arithmetic (\<lambda>_. 0)) 0) = 4 \<and>
   outcome (withRetry (always_failing invalid_recipient) default_options (exact_arithmetic (\<lambda>_. 0)) 0)
     = Inl (Some invalid_recipient)"
  by (simp add: isRetryableError_def retryableErrors_def invalid_recipient_def withRetry_def
      default_options_def wrappedOperation_def exponentialBackoff_def
      exponentialBackoff_from.simps always_failing_def)

section \<open>Properties of the outbox\<close>









lemma incrementCounter_table: "table (incrementCounter n d w) = table w"
  by (simp add: incrementCounter_def)


















lemma set_expression_plain:
  "set_expression st now None None item = Inr (item\<lparr>status := st, updatedAt := now\<rparr>)"
  by (simp add: set_expression_def)

lemma outbox_update_plain:
  "table w oid = Some e \<Longrightarrow>
   outbox_updateOutboxEntryStatus oid st None now w
   = (Inr (), w\<lparr>table := (table w)(oid \<mapsto> e\<lparr>status := st, updatedAt := now\<rparr>)\<rparr>)"
  by (simp add: outbox_updateOutboxEntryStatus_def update_item_def truthy_string_def
      set_expression_plain)












lemma set_expression_retryCount:
  assumes "retryCount item = Some n"
  shows "\<exists>item'. set_expression st now err None item = Inr item' \<and> status item' = st \<and>
           updatedAt item' = now \<and>
           retryCount item' = (if err = None then Some n else Some (n + 1))"
  using assms
  by (cases err) (simp_all add: set_expression_def)

lemma truthy_string_None: "(truthy_string err = None) = (err = None \<or> err = Some [])"
  by (cases err) (simp_all add: truthy_string_def)

text \<open>
  The result clause: whatever the entry and the error, an update that carries a result is
  rejected by the store and nothing is written.
\<close>

lemma result_update_rejected:
  "updateOutboxEntryStatus oid st err (Some r) now w = (Inl reserved_keyword, w)"
  by (simp add: updateOutboxEntryStatus_def update_item_def set_expression_def)

text \<open>
  C3, as the code has it. On an entry that exists and has a \<^verbatim>\<open>retryCount\<close>,
  \<^verbatim>\<open>updateOutboxEntryStatus\<close> called without a result (in both services) succeeds,
  sets the status, and adds exactly one to \<^verbatim>\<open>retryCount\<close> when the error is a
  non-empty string; it leaves \<^verbatim>\<open>retryCount\<close> as it was when the error is \<^verbatim>\<open>null\<close>
  or the empty string, since the code tests \<^verbatim>\<open>if (error)\<close>.
\<close>

theorem updateOutboxEntryStatus_existing:
  assumes "table w oid = Some e" and "retryCount e = Some n"
  shows "(\<exists>e'. updateOutboxEntryStatus oid st err None now w
               = (Inr (), w\<lparr>table := (table w)(oid \<mapsto> e')\<rparr>) \<and>
             status e' = st \<and>
             retryCount e' = (if err = None \<or> err = Some [] then Some n else Some (n + 1))) \<and>
         (\<exists>e'. outbox_updateOutboxEntryStatus oid st err now w
               = (Inr (), w\<lparr>table := (table w)(oid \<mapsto> e')\<rparr>) \<and>
             status e' = st \<and>
             retryCount e' = (if err = None \<or> err = Some [] then Some n else Some (n + 1)))"
proof -
  from set_expression_retryCount[OF assms(2), of st now "truthy_string err"]
  obtain e1 where s: "set_expression st now (truthy_string err) None e = Inr e1"
    and f: "status e1 = st"
      "retryCount e1 = (if truthy_string err = None then Some n else Some (n + 1))"
    by blast
  have u: "update_item oid st now (truthy_string err) None (table w) = Inr ((table w)(oid \<mapsto> e1))"
    using assms(1) s by (simp add: update_item_def)
  have c: "retryCount e1 = (if err = None \<or> err = Some [] then Some n else Some (n + 1))"
    using f(2) by (simp add: truthy_string_None)
  have a: "\<exists>e'. updateOutboxEntryStatus oid st err None now w
               = (Inr (), w\<lparr>table := (table w)(oid \<mapsto> e')\<rparr>) \<and>
             status e' = st \<and>
             retryCount e' = (if err = None \<or> err = Some [] then Some n else Some (n + 1))"
    using u f(1) c by (intro exI[of _ e1]) (simp add: updateOutboxEntryStatus_def)
  have b: "\<exists>e'. outbox_updateOutboxEntryStatus oid st err now w
               = (Inr (), w\<lparr>table := (table w)(oid \<mapsto> e')\<rparr>) \<and>
             status e' = st \<and>
             retryCount e' = (if err = None \<or> err = Some [] then Some n else Some (n + 1))"
    using u f(1) c by (intro exI[of _ e1]) (simp add: outbox_updateOutboxEntryStatus_def)
  from a b show ?thesis by blast
qed

lemma once_failed_stored: "table once_failed_world ''o1'' = Some once_failed"
  by (simp add: once_failed_world_def failing_world_def)

lemma once_failed_count: "retryCount once_failed = Some 1"
  by (simp add: once_failed_def)

theorem updateOutboxEntryStatus_existing_witness:
  "table once_failed_world ''o1'' = Some once_failed \<and> retryCount once_failed = Some 1 \<and>
   map_option retryCount
     (table (snd (updateOutboxEntryStatus ''o1'' ''failed'' (Some ''boom'') None 5000 once_failed_world)) ''o1'')
     = Some (Some 2) \<and>
   map_option retryCount
     (table (snd (updateOutboxEntryStatus ''o1'' ''pending'' None None 5000 once_failed_world)) ''o1'')
     = Some (Some 1) \<and>
   map_option retryCount
     (table (snd (outbox_updateOutboxEntryStatus ''o1'' ''failed'' (Some ''boom'') 5000 once_failed_world)) ''o1'')
     = Some (Some 2)"
proof -
  note t = updateOutboxEntryStatus_existing[OF once_failed_stored once_failed_count]
  from t[of "''failed''" "Some ''boom''" 5000]
  have a: "map_option retryCount
     (table (snd (updateOutboxEntryStatus ''o1'' ''failed'' (Some ''boom'') None 5000 once_failed_world)) ''o1'')
     = Some (Some 2)"
    by auto
  from t[of "''pending''" None 5000]
  have b: "map_option retryCount
     (table (snd (updateOutboxEntryStatus ''o1'' ''pending'' None None 5000 once_failed_world)) ''o1'')
     = Some (Some 1)"
    by auto
  from t[of "''failed''" "Some ''boom''" 5000]
  have c: "map_option retryCount
     (table (snd (outbox_updateOutboxEntryStatus ''o1'' ''failed'' (Some ''boom'') 5000 once_failed_world)) ''o1'')
     = Some (Some 2)"
    by auto
  from a b c once_failed_stored once_failed_count show ?thesis by simp
qed

text \<open>
  C3, as stated, fails. An empty-string error is not \<^verbatim>\<open>null\<close>, yet it adds nothing
  to \<^verbatim>\<open>retryCount\<close>. And for an id that has no entry no call fails with a not-found
  error: the update is sent without reading the entry and without a condition, so an
  update without error and without result succeeds and leaves a new item that holds only
  the id, the status and the time, an update with an error is rejected by the store with
  a \<^verbatim>\<open>ValidationException\<close> for the \<^verbatim>\<open>retryCount\<close> the item does not have, and an
  update with a result is rejected with a \<^verbatim>\<open>ValidationException\<close> for the reserved
  word.
\<close>

theorem updateOutboxEntryStatus_counterexample:
  "table once_failed_world ''o1'' = Some once_failed \<and> retryCount once_failed = Some 1 \<and>
   map_option retryCount
     (table (snd (updateOutboxEntryStatus ''o1'' ''failed'' (Some []) None 5000 once_failed_world)) ''o1'')
     = Some (Some 1) \<and>
   table failing_world ''missing'' = None \<and>
   updateOutboxEntryStatus ''missing'' ''pending'' None None 1000 failing_world
     = (Inr (), failing_world\<lparr>table := [''missing'' \<mapsto>
           (empty_item ''missing'')\<lparr>status := ''pending'', updatedAt := 1000\<rparr>]\<rparr>) \<and>
   outbox_updateOutboxEntryStatus ''missing'' ''pending'' None 1000 failing_world
     = (Inr (), failing_world\<lparr>table := [''missing'' \<mapsto>
           (empty_item ''missing'')\<lparr>status := ''pending'', updatedAt := 1000\<rparr>]\<rparr>) \<and>
   updateOutboxEntryStatus ''missing'' ''failed'' (Some ''boom'') None 1000 failing_world
     = (Inl missing_attribute, failing_world) \<and>
   name missing_attribute = ''ValidationException'' \<and>
   updateOutboxEntryStatus ''missing'' ''sent'' None (Some receipt) 1000 failing_world
     = (Inl reserved_keyword, failing_world) \<and>
   name reserved_keyword = ''ValidationException''"
  by (simp add: failing_world_def once_failed_world_def once_failed_def
      updateOutboxEntryStatus_def outbox_updateOutboxEntryStatus_def
      update_item_def set_expression_def truthy_string_def empty_item_def
      missing_attribute_def reserved_keyword_def)

text \<open>
  C8, as the code has it. \<^verbatim>\<open>requeueFailedNotification\<close> fails and changes nothing
  when the id has no entry. For an entry that exists it succeeds exactly when the status
  is \<^verbatim>\<open>failed\<close> and the test \<^verbatim>\<open>retryCount >= maxRetries\<close> is false; that test is
  true only when the entry has both counters and \<^verbatim>\<open>retryCount\<close> is not below
  \<^verbatim>\<open>maxRetries\<close>, so an entry that lacks a counter passes. On success the entry's
  status becomes \<^verbatim>\<open>pending\<close>, its \<^verbatim>\<open>updatedAt\<close> the current time, and every other
  field of the entry, every other entry, the send log and the metrics stay as they were;
  otherwise the call fails and changes nothing.
\<close>

theorem requeueFailedNotification_frame:
  "(table w oid = None \<longrightarrow> (\<exists>err. requeueFailedNotification oid now w = (Inl err, w))) \<and>
   (table w oid = Some e \<longrightarrow>
      (if status e = ''failed'' \<and> \<not> js_ge (retryCount e) (maxRetries e)
       then requeueFailedNotification oid now w
            = (Inr (retryCount e),
               w\<lparr>table := (table w)(oid \<mapsto> e\<lparr>status := ''pending'', updatedAt := now\<rparr>)\<rparr>)
       else (\<exists>err. requeueFailedNotification oid now w = (Inl err, w)))) \<and>
   (js_ge (retryCount e) (maxRetries e)
      = (\<exists>r m. retryCount e = Some r \<and> maxRetries e = Some m \<and> m \<le> r))"
proof -
  have none: "\<exists>err. requeueFailedNotification oid now w = (Inl err, w)"
    if "table w oid = None"
    using that by (simp add: requeueFailedNotification_def getOutboxEntry_def)
  have some: "if status e = ''failed'' \<and> \<not> js_ge (retryCount e) (maxRetries e)
       then requeueFailedNotification oid now w
            = (Inr (retryCount e),
               w\<lparr>table := (table w)(oid \<mapsto> e\<lparr>status := ''pending'', updatedAt := now\<rparr>)\<rparr>)
       else (\<exists>err. requeueFailedNotification oid now w = (Inl err, w))"
    if a: "table w oid = Some e"
  proof (cases "status e = ''failed'' \<and> \<not> js_ge (retryCount e) (maxRetries e)")
    case True
    with a show ?thesis
      by (simp add: requeueFailedNotification_def getOutboxEntry_def outbox_update_plain)
  next
    case False
    with a show ?thesis
      by (auto simp: requeueFailedNotification_def getOutboxEntry_def)
  qed
  have ge: "js_ge (retryCount e) (maxRetries e)
      = (\<exists>r m. retryCount e = Some r \<and> maxRetries e = Some m \<and> m \<le> r)"
    by (cases "retryCount e"; cases "maxRetries e") (simp_all add: js_ge_def)
  from none some ge show ?thesis by blast
qed

lemma once_failed_fields:
  "retryCount once_failed = Some 1" "maxRetries once_failed = Some 3"
  "status once_failed = ''failed''"
  by (simp_all add: once_failed_def queued_entry_def storeInOutbox_def Let_def)

lemma bare_failed_fields:
  "retryCount bare_failed = None" "maxRetries bare_failed = None"
  "status bare_failed = ''failed''"
  by (simp_all add: bare_failed_def empty_item_def)

lemma escalated_entry: "table escalated_world ''o1'' = Some bare_failed"
  by code_simp

lemma escalated_reachable: "reachable escalated_world"
  unfolding escalated_world_def
  by (intro reachable.escalate reachable.initial) (simp add: silent_world_def)

theorem requeueFailedNotification_frame_witness:
  "table once_failed_world ''o1'' = Some once_failed \<and> status once_failed = ''failed'' \<and>
   \<not> js_ge (retryCount once_failed) (maxRetries once_failed) \<and>
   requeueFailedNotification ''o1'' 5000 once_failed_world
     = (Inr (Some 1),
        once_failed_world\<lparr>table := (table once_failed_world)
           (''o1'' \<mapsto> once_failed\<lparr>status := ''pending'', updatedAt := 5000\<rparr>)\<rparr>) \<and>
   table escalated_world ''o1'' = Some bare_failed \<and> status bare_failed = ''failed'' \<and>
   \<not> js_ge (retryCount bare_failed) (maxRetries bare_failed) \<and>
   requeueFailedNotification ''o1'' 5000 escalated_world
     = (Inr None,
        escalated_world\<lparr>table := (table escalated_world)
           (''o1'' \<mapsto> bare_failed\<lparr>status := ''pending'', updatedAt := 5000\<rparr>)\<rparr>) \<and>
   table failing_world ''o1'' = None \<and>
   fst (requeueFailedNotification ''o1'' 5000 failing_world)
     = Inl \<lparr>name = ''Error'', message = ''Outbox entry not found''\<rparr>"
proof -
  have g1: "\<not> js_ge (retryCount once_failed) (maxRetries once_failed)"
    by (simp add: once_failed_fields js_ge_def)
  have g2: "\<not> js_ge (retryCount bare_failed) (maxRetries bare_failed)"
    by (simp add: bare_failed_fields js_ge_def)
  have n: "table failing_world ''o1'' = None" by (simp add: failing_world_def)
  have f: "fst (requeueFailedNotification ''o1'' 5000 failing_world)
     = Inl \<lparr>name = ''Error'', message = ''Outbox entry not found''\<rparr>"
    by (simp add: requeueFailedNotification_def getOutboxEntry_def failing_world_def)
  from requeueFailedNotification_frame[of once_failed_world "''o1''" 5000 once_failed]
    requeueFailedNotification_frame[of escalated_world "''o1''" 5000 bare_failed]
    once_failed_stored escalated_entry once_failed_fields bare_failed_fields g1 g2 n f
  show ?thesis by simp
qed

text \<open>
  C8, as stated, fails for a failed entry without counters. Such an entry is reachable:
  the escalation of a queue message that carries an entry the table does not hold,
  against a provider whose error has an empty message, leaves an item with the id, the
  status \<^verbatim>\<open>failed\<close> and the time only. It has no \<^verbatim>\<open>retryCount\<close> below a
  \<^verbatim>\<open>maxRetries\<close>, yet the requeue succeeds and makes it pending.
\<close>

theorem requeueFailedNotification_counterexample:
  "reachable escalated_world \<and> table escalated_world ''o1'' = Some bare_failed \<and>
   status bare_failed = ''failed'' \<and> retryCount bare_failed = None \<and>
   maxRetries bare_failed = None \<and>
   fst (requeueFailedNotification ''o1'' 5000 escalated_world) = Inr None \<and>
   map_option status (table (snd (requeueFailedNotification ''o1'' 5000 escalated_world)) ''o1'')
     = Some ''pending''"
proof -
  have "fst (requeueFailedNotification ''o1'' 5000 escalated_world) = Inr None"
    by code_simp
  moreover have "map_option status
      (table (snd (requeueFailedNotification ''o1'' 5000 escalated_world)) ''o1'') = Some ''pending''"
    by code_simp
  ultimately show ?thesis
    using escalated_reachable escalated_entry bare_failed_fields by simp
qed

text \<open>
  C5. \<^verbatim>\<open>processRecord\<close> does anything at all (a send, a status update, a metric, an
  error) only for an \<^verbatim>\<open>INSERT\<close> record whose image is pending and whose
  \<^verbatim>\<open>scheduledAt\<close> is absent or not after the current time. A record whose image is
  scheduled for the future returns without error and leaves the outbox, the send log and
  the metrics unchanged; \<^verbatim>\<open>processOutboxEntry\<close> itself returns \<^verbatim>\<open>scheduled\<close> for such
  an entry, again with nothing changed.
\<close>

theorem processRecord_eligibility:
  "(processRecord rec now rnd w \<noteq> (Inr (), w) \<longrightarrow>
      eventName rec = ''INSERT'' \<and>
      (\<exists>d e. dynamodb rec = Some d \<and> NewImage d = Some e \<and> status e = ''pending'' \<and>
             (case scheduledAt e of None \<Rightarrow> True | Some t \<Rightarrow> t \<le> now))) \<and>
   (dynamodb rec = Some d \<longrightarrow> NewImage d = Some e \<longrightarrow> scheduledAt e = Some t \<longrightarrow> now < t \<longrightarrow>
      processRecord rec now rnd w = (Inr (), w)) \<and>
   (scheduledAt e = Some t \<longrightarrow> now < t \<longrightarrow> processOutboxEntry e now w = (Inr Scheduled, w))"
proof -
  have skip: "eventName rec = ''INSERT'' \<and>
      (\<exists>d e. dynamodb rec = Some d \<and> NewImage d = Some e \<and> status e = ''pending'' \<and>
             (case scheduledAt e of None \<Rightarrow> True | Some t \<Rightarrow> t \<le> now))"
    if a: "processRecord rec now rnd w \<noteq> (Inr (), w)"
  proof -
    have ev: "eventName rec = ''INSERT''"
    proof (rule ccontr)
      assume "eventName rec \<noteq> ''INSERT''"
      then have "processRecord rec now rnd w = (Inr (), w)" by (simp add: processRecord_def)
      with a show False by simp
    qed
    obtain d where d: "dynamodb rec = Some d"
    proof (cases "dynamodb rec")
      case None
      then have "processRecord rec now rnd w = (Inr (), w)" by (simp add: processRecord_def)
      with a show ?thesis by simp
    qed
    obtain e where e: "NewImage d = Some e"
    proof (cases "NewImage d")
      case None
      with d have "processRecord rec now rnd w = (Inr (), w)" by (simp add: processRecord_def)
      with a show ?thesis by simp
    qed
    have st: "status e = ''pending''"
    proof (rule ccontr)
      assume "status e \<noteq> ''pending''"
      with d e have "processRecord rec now rnd w = (Inr (), w)" by (simp add: processRecord_def)
      with a show False by simp
    qed
    have "\<not> scheduled_for_future e now"
    proof
      assume "scheduled_for_future e now"
      with d e have "processRecord rec now rnd w = (Inr (), w)" by (simp add: processRecord_def)
      with a show False by simp
    qed
    then have "case scheduledAt e of None \<Rightarrow> True | Some t \<Rightarrow> t \<le> now"
      by (simp add: scheduled_for_future_def split: option.splits)
    with ev d e st show ?thesis by blast
  qed
  have future: "processRecord rec now rnd w = (Inr (), w)"
    if "dynamodb rec = Some d" "NewImage d = Some e" "scheduledAt e = Some t" "now < t"
    using that by (simp add: processRecord_def scheduled_for_future_def)
  have inner: "processOutboxEntry e now w = (Inr Scheduled, w)"
    if "scheduledAt e = Some t" "now < t"
    using that
    by (simp add: processOutboxEntry_def processOutboxEntry_try_def scheduled_for_future_def)
  from skip future inner show ?thesis by blast
qed

lemma dispatched_outcome:
  "fst (processRecord insert_record 2000 (exact_arithmetic (\<lambda>_. 0)) queued_world)
     = Inl (Some throttled)"
  by code_simp

theorem processRecord_eligibility_witness:
  "dynamodb later_record = Some \<lparr>NewImage = Some later_entry\<rparr> \<and>
   scheduledAt later_entry = Some 9000 \<and> (2000::int) < 9000 \<and>
   processRecord later_record 2000 (exact_arithmetic (\<lambda>_. 0)) later_world
     = (Inr (), later_world) \<and>
   processRecord insert_record 2000 (exact_arithmetic (\<lambda>_. 0)) queued_world
     \<noteq> (Inr (), queued_world) \<and>
   eventName insert_record = ''INSERT'' \<and>
   processOutboxEntry later_entry 2000 later_world = (Inr Scheduled, later_world)"
proof -
  have s: "scheduledAt later_entry = Some 9000" by (simp add: later_entry_def)
  have d: "dynamodb later_record = Some \<lparr>NewImage = Some later_entry\<rparr>"
    by (simp add: later_record_def)
  have n: "processRecord insert_record 2000 (exact_arithmetic (\<lambda>_. 0)) queued_world
             \<noteq> (Inr (), queued_world)"
    using dispatched_outcome by (metis fst_conv sum.distinct(1))
  note t1 = processRecord_eligibility[of later_record 2000 "exact_arithmetic (\<lambda>_. 0)" later_world
      "\<lparr>NewImage = Some later_entry\<rparr>" later_entry 9000]
  note t2 = processRecord_eligibility[of insert_record 2000 "exact_arithmetic (\<lambda>_. 0)" queued_world
      "\<lparr>NewImage = Some later_entry\<rparr>" later_entry 9000]
  from t1 s d have "processRecord later_record 2000 (exact_arithmetic (\<lambda>_. 0)) later_world
      = (Inr (), later_world)"
    by simp
  moreover from t1 s have "processOutboxEntry later_entry 2000 later_world = (Inr Scheduled, later_world)"
    by simp
  moreover from t2 n have "eventName insert_record = ''INSERT''" by blast
  ultimately show ?thesis using s d n by simp
qed

section \<open>Properties of the escalation processor\<close>

lemma outbox_update_error:
  assumes "table w oid = Some stored" "retryCount stored = Some k" "msg \<noteq> []"
  shows "outbox_updateOutboxEntryStatus oid st (Some msg) now w
   = (Inr (), w\<lparr>table := (table w)(oid \<mapsto> stored\<lparr>status := st, updatedAt := now,
         error := Some msg, retryCount := Some (k + 1)\<rparr>)\<rparr>)"
  using assms
  by (simp add: outbox_updateOutboxEntryStatus_def update_item_def truthy_string_def
      set_expression_def)

lemma markAsPermanentlyFailed_stored:
  assumes "table w (entry_id e) = Some stored" "retryCount stored = Some k"
  shows "markAsPermanentlyFailed e now w
   = (Inr (), w\<lparr>table := (table w)(entry_id e \<mapsto> stored\<lparr>status := ''permanently_failed'',
          updatedAt := now, error := Some ''Exceeded maximum retry attempts'',
          retryCount := Some (k + 1)\<rparr>),
        metrics := metrics w @ [(''notifications.permanently_failed'',
          [(''type'', type e),
           (''priority'', Some (case truthy_string (priority e) of
                                  Some p \<Rightarrow> p | None \<Rightarrow> ''normal''))])]\<rparr>)"
  by (simp add: markAsPermanentlyFailed_def outbox_update_error[OF assms] incrementCounter_def)

text \<open>
  C4, as the code has it. The escalation processor compares \<^verbatim>\<open>retryCount\<close> with
  \<^verbatim>\<open>maxRetries || 3\<close>, so a missing or zero \<^verbatim>\<open>maxRetries\<close> counts as 3. When the
  entry it extracts from the message (any of the three shapes) has
  \<^verbatim>\<open>retryCount >= (maxRetries || 3)\<close> and the store holds an entry with that id and a
  \<^verbatim>\<open>retryCount\<close>, it marks the stored entry \<^verbatim>\<open>permanently_failed\<close> (adding one to the
  stored count), records the metric \<^verbatim>\<open>notifications.permanently_failed\<close>, returns
  \<^verbatim>\<open>permanently_failed\<close> and sends nothing to a provider.
\<close>

theorem processMessage_marks_exhausted:
  assumes "msg = StreamFailure e \<or> msg = DirectEntry e \<or> (\<exists>oid. msg = OutboxReference oid \<and> table w oid = Some e)"
    and "retryCount e = Some r" and "maxRetries_or_3 e \<le> r"
    and "table w (entry_id e) = Some stored" and "retryCount stored = Some k"
  shows "processMessage msg now rnd w
   = (PermanentlyFailed,
      w\<lparr>table := (table w)(entry_id e \<mapsto> stored\<lparr>status := ''permanently_failed'',
          updatedAt := now, error := Some ''Exceeded maximum retry attempts'',
          retryCount := Some (k + 1)\<rparr>),
        metrics := metrics w @ [(''notifications.permanently_failed'',
          [(''type'', type e),
           (''priority'', Some (case truthy_string (priority e) of
                                  Some p \<Rightarrow> p | None \<Rightarrow> ''normal''))])]\<rparr>)"
proof -
  have ge: "js_ge (retryCount e) (Some (maxRetries_or_3 e))"
    using assms(2,3) by (simp add: js_ge_def)
  have ex: "(case msg of
              StreamFailure newImage \<Rightarrow> Inr newImage
            | OutboxReference outboxId \<Rightarrow> getOutboxEntry outboxId w
            | DirectEntry entry \<Rightarrow> Inr entry
            | Unrecognised \<Rightarrow>
                Inl \<lparr>name = ''Error'', message = ''Unable to extract outbox entry from DLQ message''\<rparr>)
           = Inr e"
    using assms(1) by (auto simp: getOutboxEntry_def)
  show ?thesis
    unfolding processMessage_def processMessage_try_def ex
    by (simp add: ge markAsPermanentlyFailed_stored[OF assms(4,5)])
qed

lemma exhausted_fields:
  "retryCount exhausted_entry = Some 3" "maxRetries_or_3 exhausted_entry = 3"
  "entry_id exhausted_entry = ''o1''" "type exhausted_entry = Some ''email''"
  "priority exhausted_entry = Some ''normal''"
  by (simp_all add: exhausted_entry_def queued_entry_def storeInOutbox_def Let_def
      maxRetries_or_3_def request_def)

theorem processMessage_marks_exhausted_witness:
  "retryCount exhausted_entry = Some 3 \<and> maxRetries_or_3 exhausted_entry \<le> 3 \<and>
   table exhausted_world (entry_id exhausted_entry) = Some exhausted_entry \<and>
   processMessage (StreamFailure exhausted_entry) 3000 (exact_arithmetic (\<lambda>_. 0)) exhausted_world
   = (PermanentlyFailed,
      exhausted_world\<lparr>table := (table exhausted_world)(''o1'' \<mapsto>
          exhausted_entry\<lparr>status := ''permanently_failed'', updatedAt := 3000,
            error := Some ''Exceeded maximum retry attempts'', retryCount := Some 4\<rparr>),
        metrics := [(''notifications.permanently_failed'',
          [(''type'', Some ''email''), (''priority'', Some ''normal'')])]\<rparr>)"
proof -
  have t: "table exhausted_world (entry_id exhausted_entry) = Some exhausted_entry"
    by (simp add: exhausted_world_def failing_world_def exhausted_fields)
  have m: "metrics exhausted_world = []"
    by (simp add: exhausted_world_def failing_world_def)
  have le: "maxRetries_or_3 exhausted_entry \<le> 3" by (simp add: exhausted_fields)
  from processMessage_marks_exhausted[of "StreamFailure exhausted_entry" exhausted_entry
      exhausted_world 3 exhausted_entry 3 3000 "exact_arithmetic (\<lambda>_. 0)"] t le
  show ?thesis by (simp add: exhausted_fields m truthy_string_def)
qed

lemma zero_budget_outcome:
  "fst (processMessage (DirectEntry zero_budget_entry) 3000 (exact_arithmetic (\<lambda>_. 0))
           zero_budget_world) = Failed True"
  by code_simp

lemma zero_budget_sends:
  "length (sent (snd (processMessage (DirectEntry zero_budget_entry) 3000 (exact_arithmetic (\<lambda>_. 0))
           zero_budget_world))) = 3"
  by code_simp

text \<open>
  C4, as stated, fails for an entry whose \<^verbatim>\<open>maxRetries\<close> is 0: with \<^verbatim>\<open>retryCount\<close> 1
  the comparison made is \<^verbatim>\<open>1 >= 3\<close>, the processor retries the delivery (three sends
  against the throttling provider) and returns \<^verbatim>\<open>failed\<close>, retryable.
\<close>

theorem processMessage_zero_maxRetries_counterexample:
  "retryCount zero_budget_entry = Some 1 \<and> maxRetries zero_budget_entry = Some 0 \<and>
   table zero_budget_world (entry_id zero_budget_entry) = Some zero_budget_entry \<and>
   fst (processMessage (DirectEntry zero_budget_entry) 3000 (exact_arithmetic (\<lambda>_. 0))
           zero_budget_world) = Failed True \<and>
   length (sent (snd (processMessage (DirectEntry zero_budget_entry) 3000 (exact_arithmetic (\<lambda>_. 0))
           zero_budget_world))) = 3"
  using zero_budget_outcome zero_budget_sends
  by (simp add: zero_budget_entry_def zero_budget_world_def failing_world_def queued_entry_def
      storeInOutbox_def Let_def)

section \<open>Properties of masking and decoding\<close>

lemma split_no_sep: "sep \<notin> set xs \<Longrightarrow> js_split sep xs = [xs]"
  by (induction xs) auto

lemma split_one: "sep \<notin> set xs \<Longrightarrow> js_split sep (xs @ sep # ys) = xs # js_split sep ys"
  by (induction xs) auto

lemma str_includes_char: "str_includes xs [c] \<longleftrightarrow> c \<in> set xs"
  by (induction xs) auto

lemma digit_not_at: "is_digit c \<Longrightarrow> c \<noteq> CHR ''@''"
  by (auto simp: is_digit_def)

lemma mask_email:
  assumes "CHR ''@'' \<notin> set localPart" "CHR ''@'' \<notin> set domain"
  shows "maskSensitiveData (localPart @ ''@'' @ domain) = take 2 localPart @ ''***@'' @ domain"
proof -
  have sp: "js_split CHR ''@'' (localPart @ ''@'' @ domain) = [localPart, domain]"
    using split_one[OF assms(1), of domain] split_no_sep[OF assms(2)] by simp
  have inc: "str_includes (localPart @ ''@'' @ domain) ''@''"
    by (simp add: str_includes_char)
  show ?thesis
    unfolding maskSensitiveData_def Let_def sp using inc
    by (simp add: substring_def)
qed

lemma mask_phone:
  assumes "e164 phone"
  shows "maskSensitiveData phone = take 3 phone @ ''***'' @ drop (length phone - 2) phone"
proof -
  from assms obtain d ds where p: "phone = CHR ''+'' # d # ds"
    and dg: "d \<in> set ''123456789''" "list_all is_digit ds" "1 \<le> length ds"
    by (auto simp: e164_def split: list.splits)
  have "is_digit d" using dg(1) by (auto simp: is_digit_def)
  then have "CHR ''@'' \<notin> set phone"
    using dg(2) digit_not_at by (auto simp: p list_all_iff)
  then have ninc: "\<not> str_includes phone ''@''" by (simp add: str_includes_char)
  have pre: "prefix ''+'' phone" by (simp add: p)
  have ne: "phone \<noteq> []" by (simp add: p)
  show ?thesis
    unfolding maskSensitiveData_def using ninc pre ne
    by (simp add: substring_def)
qed

text \<open>
  C9, as the code has it. An e-mail address (one \<^verbatim>\<open>@\<close>) is masked to the first two
  characters of its local part, then \<^verbatim>\<open>***@\<close>, then the whole domain. A phone number
  in E.164 form is masked to its first three characters, which are the plus sign and the
  two leading digits, then \<^verbatim>\<open>***\<close>, then its last two digits.
\<close>

theorem maskSensitiveData_masks:
  "(CHR ''@'' \<notin> set localPart \<longrightarrow> CHR ''@'' \<notin> set domain \<longrightarrow>
      maskSensitiveData (localPart @ ''@'' @ domain) = take 2 localPart @ ''***@'' @ domain) \<and>
   (e164 phone \<longrightarrow>
      maskSensitiveData phone = take 3 phone @ ''***'' @ drop (length phone - 2) phone \<and>
      (\<exists>d1 d2. take 3 phone = [CHR ''+'', d1, d2] \<and> is_digit d1 \<and> is_digit d2) \<and>
      (\<exists>y z. drop (length phone - 2) phone = [y, z] \<and> is_digit y \<and> is_digit z))"
proof -
  have "(\<exists>d1 d2. take 3 phone = [CHR ''+'', d1, d2] \<and> is_digit d1 \<and> is_digit d2) \<and>
      (\<exists>y z. drop (length phone - 2) phone = [y, z] \<and> is_digit y \<and> is_digit z)"
    if e: "e164 phone"
  proof -
    from e obtain d ds where p: "phone = CHR ''+'' # d # ds"
      and dg: "d \<in> set ''123456789''" "list_all is_digit ds" "1 \<le> length ds"
      by (auto simp: e164_def split: list.splits)
    have d1: "is_digit d" using dg(1) by (auto simp: is_digit_def)
    with dg(2) have all: "list_all is_digit (d # ds)" by simp
    from dg(3) obtain d2 rest where ds: "ds = d2 # rest" by (cases ds) auto
    have d2: "is_digit d2" using dg(2) ds by simp
    have front: "take 3 phone = [CHR ''+'', d, d2]" by (simp add: p ds)
    have dr: "drop (length phone - 2) phone = drop (length rest) (d # d2 # rest)"
      by (simp add: p ds)
    have len: "length (drop (length rest) (d # d2 # rest)) = 2" by simp
    then obtain y z where yz: "drop (length rest) (d # d2 # rest) = [y, z]"
      by (cases "drop (length rest) (d # d2 # rest)" rule: list.exhaust;
          cases "tl (drop (length rest) (d # d2 # rest))" rule: list.exhaust;
          cases "tl (tl (drop (length rest) (d # d2 # rest)))" rule: list.exhaust) auto
    have "set [y, z] \<subseteq> set (d # ds)"
      using set_drop_subset[of "length rest" "d # d2 # rest"] by (simp add: yz ds)
    with all have "is_digit y \<and> is_digit z" unfolding list_all_iff by auto
    with front d1 d2 dr yz show ?thesis by simp
  qed
  with mask_email mask_phone show ?thesis by blast
qed

theorem maskSensitiveData_masks_witness:
  "CHR ''@'' \<notin> set ''john.doe'' \<and> CHR ''@'' \<notin> set ''example.com'' \<and>
   maskSensitiveData ''john.doe@example.com'' = ''jo***@example.com'' \<and>
   e164 ''+14155552671'' \<and> maskSensitiveData ''+14155552671'' = ''+14***71'' \<and>
   take 3 ''+14155552671'' = ''+14''"
proof -
  have e: "e164 ''+14155552671''" by (simp add: e164_def is_digit_def)
  from maskSensitiveData_masks[of "''john.doe''" "''example.com''" "''+14155552671''"] e
  show ?thesis by simp
qed

text \<open>
  C9, as stated, fails for every phone number: the first three digits of
  \<^verbatim>\<open>+14155552671\<close> are 1, 4 and 1, but the mask keeps the plus sign and two digits
  only; it is neither the three digits nor the plus sign and three digits in front of the
  stars.
\<close>

theorem maskSensitiveData_phone_counterexample:
  "e164 ''+14155552671'' \<and>
   take 3 (filter is_digit ''+14155552671'') = ''141'' \<and>
   maskSensitiveData ''+14155552671'' = ''+14***71'' \<and>
   maskSensitiveData ''+14155552671'' \<noteq> ''141***71'' \<and>
   maskSensitiveData ''+14155552671'' \<noteq> ''+141***71''"
proof -
  have e: "e164 ''+14155552671''" by (simp add: e164_def is_digit_def)
  have m: "maskSensitiveData ''+14155552671'' = ''+14***71''"
    using mask_phone[OF e] by simp
  have f: "take 3 (filter is_digit ''+14155552671'') = ''141''" by (simp add: is_digit_def)
  from e m f show ?thesis by simp
qed

lemma convert_falsy: "falsy_payload a \<Longrightarrow> convertDynamoDBValue a = Wrapper a"
  by (cases a) simp_all

lemma convert_truthy: "\<not> falsy_payload a \<Longrightarrow> convertDynamoDBValue a = decoded a"
  by (cases a) (simp_all add: convertDynamoDBRecord_def)

lemma decoded_not_wrapper: "decoded a \<noteq> Wrapper b"
  by (cases a) simp_all

text \<open>
  C10. A wrapper whose payload is falsy (\<^verbatim>\<open>{BOOL: false}\<close>, \<^verbatim>\<open>{NULL: false}\<close>, or an
  empty string under \<^verbatim>\<open>S\<close>, \<^verbatim>\<open>N\<close> or \<^verbatim>\<open>B\<close>) is returned as it is, so such a
  field of an image keeps its wrapper in the converted record; a wrapper with a truthy
  payload is decoded to the value it stands for, never to the wrapper.
\<close>

theorem convertDynamoDBValue_falsy_payload:
  "(falsy_payload a \<longrightarrow> convertDynamoDBValue a = Wrapper a) \<and>
   (\<not> falsy_payload a \<longrightarrow> convertDynamoDBValue a = decoded a \<and> convertDynamoDBValue a \<noteq> Wrapper a) \<and>
   convertDynamoDBValue (BOOL False) = Wrapper (BOOL False) \<and>
   convertDynamoDBValue (S []) = Wrapper (S []) \<and>
   ((k, a) \<in> set dynamoDBImage \<longrightarrow> falsy_payload a \<longrightarrow>
      (k, Wrapper a) \<in> set (convertDynamoDBRecord dynamoDBImage))"
proof -
  have "(k, Wrapper a) \<in> set (convertDynamoDBRecord dynamoDBImage)"
    if "(k, a) \<in> set dynamoDBImage" "falsy_payload a"
  proof -
    from that(1) have "(k, convertDynamoDBValue a) \<in> set (convertDynamoDBRecord dynamoDBImage)"
      unfolding convertDynamoDBRecord_def by force
    with convert_falsy[OF that(2)] show ?thesis by simp
  qed
  then show ?thesis
    using convert_falsy[of a] convert_truthy[of a] decoded_not_wrapper[of a a] by auto
qed

theorem convertDynamoDBValue_falsy_payload_witness:
  "falsy_payload (BOOL False) \<and> \<not> falsy_payload (N ''3'') \<and>
   convertDynamoDBValue (N ''3'') = Number ''3'' \<and>
   (''isActive'', BOOL False) \<in> set [(''retryCount'', N ''3''), (''isActive'', BOOL False)] \<and>
   (''isActive'', Wrapper (BOOL False))
     \<in> set (convertDynamoDBRecord [(''retryCount'', N ''3''), (''isActive'', BOOL False)])"
  using convertDynamoDBValue_falsy_payload[of "BOOL False" "''isActive''"
      "[(''retryCount'', N ''3''), (''isActive'', BOOL False)]"]
    convertDynamoDBValue_falsy_payload[of "N ''3''" "''retryCount''" "[]"]
  by simp

end
